theory Spec2Isabelle
  imports Complex_Main
begin

section \<open>JavaScript numbers\<close>

text \<open>
  The script computes with JavaScript numbers. They are modelled as reals extended by
  the three non-finite values a division by zero produces. The operations of this
  section are exact; the rounding of IEEE doubles is added to them in the subsection
  on double arithmetic below, for the property that depends on it. The sign of zero is
  outside the model (a zero divisor is taken as \<open>+0\<close>, which is what \<open>a - a\<close>
  yields).
\<close>

datatype jsnum = Fin real | PInf | NInf | NaN

definition inf_of :: "real \<Rightarrow> jsnum" where
  "inf_of r = (if 0 < r then PInf else if r < 0 then NInf else NaN)"

fun js_neg :: "jsnum \<Rightarrow> jsnum" where
  "js_neg (Fin a) = Fin (- a)"
| "js_neg PInf = NInf"
| "js_neg NInf = PInf"
| "js_neg NaN = NaN"

fun js_add :: "jsnum \<Rightarrow> jsnum \<Rightarrow> jsnum" where
  "js_add (Fin a) (Fin b) = Fin (a + b)"
| "js_add NaN _ = NaN"
| "js_add _ NaN = NaN"
| "js_add PInf NInf = NaN"
| "js_add NInf PInf = NaN"
| "js_add PInf _ = PInf"
| "js_add _ PInf = PInf"
| "js_add NInf _ = NInf"
| "js_add _ NInf = NInf"

definition js_sub :: "jsnum \<Rightarrow> jsnum \<Rightarrow> jsnum" where
  "js_sub a b = js_add a (js_neg b)"

fun js_mul :: "jsnum \<Rightarrow> jsnum \<Rightarrow> jsnum" where
  "js_mul (Fin a) (Fin b) = Fin (a * b)"
| "js_mul NaN _ = NaN"
| "js_mul _ NaN = NaN"
| "js_mul PInf (Fin b) = inf_of b"
| "js_mul (Fin a) PInf = inf_of a"
| "js_mul NInf (Fin b) = inf_of (- b)"
| "js_mul (Fin a) NInf = inf_of (- a)"
| "js_mul PInf PInf = PInf"
| "js_mul PInf NInf = NInf"
| "js_mul NInf PInf = NInf"
| "js_mul NInf NInf = PInf"

fun js_div :: "jsnum \<Rightarrow> jsnum \<Rightarrow> jsnum" where
  "js_div (Fin a) (Fin b) = (if b = 0 then inf_of a else Fin (a / b))"
| "js_div NaN _ = NaN"
| "js_div _ NaN = NaN"
| "js_div (Fin a) PInf = Fin 0"
| "js_div (Fin a) NInf = Fin 0"
| "js_div PInf (Fin b) = (if b < 0 then NInf else PInf)"
| "js_div NInf (Fin b) = (if b < 0 then PInf else NInf)"
| "js_div PInf PInf = NaN"
| "js_div PInf NInf = NaN"
| "js_div NInf PInf = NaN"
| "js_div NInf NInf = NaN"

text \<open>The remainder operator \<open>%\<close> truncates the quotient towards zero.\<close>

definition trunc :: "real \<Rightarrow> int" where
  "trunc r = (if 0 \<le> r then \<lfloor>r\<rfloor> else \<lceil>r\<rceil>)"

fun js_rem :: "jsnum \<Rightarrow> jsnum \<Rightarrow> jsnum" where
  "js_rem (Fin a) (Fin b) = (if b = 0 then NaN else Fin (a - b * of_int (trunc (a / b))))"
| "js_rem NaN _ = NaN"
| "js_rem _ NaN = NaN"
| "js_rem PInf _ = NaN"
| "js_rem NInf _ = NaN"
| "js_rem (Fin a) PInf = Fin a"
| "js_rem (Fin a) NInf = Fin a"

fun js_lt :: "jsnum \<Rightarrow> jsnum \<Rightarrow> bool" where
  "js_lt (Fin a) (Fin b) = (a < b)"
| "js_lt NaN _ = False"
| "js_lt _ NaN = False"
| "js_lt _ NInf = False"
| "js_lt PInf _ = False"
| "js_lt NInf _ = True"
| "js_lt _ PInf = True"

definition js_ge :: "jsnum \<Rightarrow> jsnum \<Rightarrow> bool" where
  "js_ge a b = (a \<noteq> NaN \<and> b \<noteq> NaN \<and> \<not> js_lt a b)"

fun Math_floor :: "jsnum \<Rightarrow> jsnum" where
  "Math_floor (Fin a) = Fin (of_int \<lfloor>a\<rfloor>)"
| "Math_floor PInf = PInf"
| "Math_floor NInf = NInf"
| "Math_floor NaN = NaN"

definition Math_max :: "jsnum \<Rightarrow> jsnum \<Rightarrow> jsnum" where
  "Math_max a b = (if a = NaN \<or> b = NaN then NaN else if js_lt a b then b else a)"

definition Math_min :: "jsnum \<Rightarrow> jsnum \<Rightarrow> jsnum" where
  "Math_min a b = (if a = NaN \<or> b = NaN then NaN else if js_lt b a then b else a)"

text \<open>\<open>Math.pow(2, e)\<close>, the only power the script takes.\<close>

fun Math_pow2 :: "jsnum \<Rightarrow> jsnum" where
  "Math_pow2 (Fin e) = Fin (2 powr e)"
| "Math_pow2 PInf = PInf"
| "Math_pow2 NInf = Fin 0"
| "Math_pow2 NaN = NaN"

text \<open>
  Reading \<open>xs[i]\<close> with a number \<open>i\<close>: the element when \<open>i\<close> is an index of the
  array, \<open>undefined\<close> otherwise. The script only adds the result to a number, where
  \<open>undefined\<close> becomes \<open>NaN\<close>, so \<open>NaN\<close> stands for it.
\<close>

fun js_index :: "real list \<Rightarrow> jsnum \<Rightarrow> jsnum" where
  "js_index xs (Fin i) =
     (if 0 \<le> i \<and> i = of_int \<lfloor>i\<rfloor> \<and> nat \<lfloor>i\<rfloor> < length xs then Fin (xs ! nat \<lfloor>i\<rfloor>) else NaN)"
| "js_index xs PInf = NaN"
| "js_index xs NInf = NaN"
| "js_index xs NaN = NaN"

section \<open>Music box sound logic\<close>

definition midiToFreq :: "jsnum \<Rightarrow> jsnum" where
  "midiToFreq midi = js_mul (Math_pow2 (js_div (js_sub midi (Fin 69)) (Fin 12))) (Fin 440)"

definition mapRange :: "jsnum \<Rightarrow> jsnum \<Rightarrow> jsnum \<Rightarrow> jsnum \<Rightarrow> jsnum \<Rightarrow> jsnum" where
  "mapRange v inMin inMax outMin outMax =
     js_add (js_div (js_mul (js_sub v inMin) (js_sub outMax outMin)) (js_sub inMax inMin)) outMin"

definition PENTATONIC_MAJOR_INTERVALS :: "real list" where
  "PENTATONIC_MAJOR_INTERVALS = [0, 2, 4, 7, 9]"

definition DIATONIC_MAJOR_INTERVALS :: "real list" where
  "DIATONIC_MAJOR_INTERVALS = [0, 2, 4, 5, 7, 9, 11]"

subsection \<open>Colour to octave and scale\<close>

text \<open>
  \<open>toUpperCase\<close> on the ASCII letters; the characters of a \<open>string\<close> are bytes, and
  the case mapping of characters beyond ASCII is outside the model.
\<close>

definition toUpperCase_char :: "char \<Rightarrow> char" where
  "toUpperCase_char c =
     (case map_of (zip ''abcdefghijklmnopqrstuvwxyz'' ''ABCDEFGHIJKLMNOPQRSTUVWXYZ'') c of
        None \<Rightarrow> c
      | Some u \<Rightarrow> u)"

definition toUpperCase :: "string \<Rightarrow> string" where
  "toUpperCase s = map toUpperCase_char s"

record ScaleSpec =
  octaveOffset :: real
  scale :: "real list"

definition getColorOctaveAndScale :: "string \<Rightarrow> ScaleSpec" where
  "getColorOctaveAndScale color =
     (let u = toUpperCase color;
          octaveOffset =
            (if u = ''#FF0000'' then 0
             else if u = ''#00FF00'' then 12
             else if u = ''#0000FF'' then - 12
             else if u = ''#FFFF00'' then 0
             else if u = ''#000000'' then 0
             else 0)
      in \<lparr>octaveOffset = octaveOffset, scale = DIATONIC_MAJOR_INTERVALS\<rparr>)"

subsection \<open>Samples and the pitch of a sample\<close>

record point =
  x :: real
  y :: real
  color :: string
  size :: real

definition baseMidiRootNote :: real where
  "baseMidiRootNote = 60"

text \<open>
  The note of the representative point of a slot, as the click handler of the play
  button derives it from the point and \<open>canvas.height\<close>.
\<close>

definition currentMidiNote :: "real \<Rightarrow> point \<Rightarrow> jsnum" where
  "currentMidiNote canvasHeight representativePoint =
     (let spec = getColorOctaveAndScale (color representativePoint);
          len = Fin (real (length (scale spec)));
          numNotesInScaleDisplay = js_mul len (Fin 2);
          i0 = Math_floor (mapRange (Fin (y representativePoint)) (Fin canvasHeight) (Fin 0)
                 (Fin 0) (js_sub numNotesInScaleDisplay (Fin 1)));
          scaleDegreeIndex = Math_max (Fin 0) (Math_min (js_sub numNotesInScaleDisplay (Fin 1)) i0);
          octaveWithinCanvas = Math_floor (js_div scaleDegreeIndex len);
          noteInScaleInterval = js_index (scale spec) (js_rem scaleDegreeIndex len)
      in js_add (js_add (js_add (Fin baseMidiRootNote) (Fin (octaveOffset spec)))
                        (js_mul octaveWithinCanvas (Fin 12)))
                noteInScaleInterval)"

subsection \<open>The pitch of a sample in double arithmetic\<close>

text \<open>
  A JavaScript number is an IEEE 754 double, and \<open>+\<close>, \<open>-\<close>, \<open>*\<close> and \<open>/\<close> return the
  exact result rounded to the nearest double, ties to the even significand.
  \<open>roundDouble\<close> is that rounding: the spacing of the doubles around \<open>a\<close> is
  \<open>ulp a\<close>, with 53 significant bits down to the exponent \<open>-1022\<close> and the spacing of
  the subnormal numbers below; a result of magnitude \<open>2^1024\<close> or more is infinite.
  The operands are meant to be doubles. \<open>Math.floor\<close>, \<open>Math.max\<close>, \<open>Math.min\<close> and
  \<open>%\<close> are exact on doubles.
\<close>












subsection \<open>The audio backend\<close>

text \<open>
  The Web Audio backend is not part of the script. The model records the calls the
  script issues to it, in order and with their arguments; every call of
  \<open>createMusicBoxTone\<close> builds its own nodes, so the record is one list of calls per
  tone. What the backend does with a call is outside the model.
\<close>

datatype node = Destination | MasterGain | Osc nat | OvertoneGain nat

datatype param = Gain node | Frequency node

datatype audio_call =
    CreateGain node
  | CreateOscillator node
  | Connect node node
  | SetType node string
  | SetValueAtTime param jsnum jsnum
  | LinearRampToValueAtTime param jsnum jsnum
  | ExponentialRampToValueAtTime param jsnum jsnum
  | Start node jsnum
  | Stop node jsnum

record audio_ctx =
  suspended :: bool
  scheduled :: "audio_call list list"

datatype canvas_op = ClearRect real real real real | FillArc string real real real

record app_state =
  isDrawing :: bool
  currentBrushColor :: string
  currentBrushSize :: real
  drawnPoints :: "point list"
  audioCtx :: "audio_ctx option"
  canvasOps :: "canvas_op list"
  console :: "string list"

text \<open>What the handlers read from the page: the canvas and the brush-size input.\<close>

record config =
  canvasWidth :: real
  canvasHeight :: real
  minBrushSize :: jsnum
  maxBrushSize :: jsnum

definition getAudioContext :: "app_state \<Rightarrow> app_state" where
  "getAudioContext s =
     (let c = (case audioCtx s of
                 None \<Rightarrow> \<lparr>suspended = True, scheduled = []\<rparr>
               | Some c \<Rightarrow> c)
      in s\<lparr>audioCtx := Some (c\<lparr>suspended := False\<rparr>)\<rparr>)"

subsection \<open>Drawing\<close>

definition addPoint :: "real \<Rightarrow> real \<Rightarrow> app_state \<Rightarrow> app_state" where
  "addPoint px py s =
     s\<lparr>canvasOps := canvasOps s @ [FillArc (currentBrushColor s) px py (currentBrushSize s / 2)],
       drawnPoints := drawnPoints s @
         [\<lparr>x = px, y = py, color = currentBrushColor s, size = currentBrushSize s\<rparr>]\<rparr>"

text \<open>
  The pointer handlers, after \<open>getMousePos\<close> has turned the event into the position
  \<open>(px, py)\<close>; positions are finite numbers.
\<close>

definition startDrawing :: "real \<Rightarrow> real \<Rightarrow> app_state \<Rightarrow> app_state" where
  "startDrawing px py s = addPoint px py (s\<lparr>isDrawing := True\<rparr>)"

definition draw :: "real \<Rightarrow> real \<Rightarrow> app_state \<Rightarrow> app_state" where
  "draw px py s = (if \<not> isDrawing s then s else addPoint px py s)"

definition stopDrawing :: "app_state \<Rightarrow> app_state" where
  "stopDrawing s = s\<lparr>isDrawing := False\<rparr>"

definition clearCanvas :: "config \<Rightarrow> app_state \<Rightarrow> app_state" where
  "clearCanvas cfg s =
     s\<lparr>canvasOps := canvasOps s @ [ClearRect 0 0 (canvasWidth cfg) (canvasHeight cfg)],
       drawnPoints := [],
       console := console s @ [''Canvas cleared'']\<rparr>"

subsection \<open>One tone\<close>

definition overtoneRatios :: "real list" where
  "overtoneRatios = [1, 2.01, 3.03, 4.05, 5.8]"

definition overtoneGains :: "real list" where
  "overtoneGains = [1, 0.7, 0.5, 0.3, 0.15]"

text \<open>\<open>a || b\<close> on numbers: \<open>b\<close> when \<open>a\<close> is zero, \<open>NaN\<close> or \<open>undefined\<close>.\<close>

definition js_or :: "jsnum \<Rightarrow> jsnum \<Rightarrow> jsnum" where
  "js_or a b = (if a = NaN \<or> a = Fin 0 then b else a)"

definition overtoneCalls :: "jsnum \<Rightarrow> jsnum \<Rightarrow> jsnum \<Rightarrow> nat \<times> real \<Rightarrow> audio_call list" where
  "overtoneCalls fundamentalFreq time duration ir =
     (case ir of (index, ratio) \<Rightarrow>
        [CreateOscillator (Osc index),
         CreateGain (OvertoneGain index),
         SetType (Osc index) ''sine'',
         SetValueAtTime (Frequency (Osc index)) (js_mul fundamentalFreq (Fin ratio)) time,
         SetValueAtTime (Gain (OvertoneGain index))
           (js_or (js_index overtoneGains (Fin (real index))) (Fin 0.1)) time,
         Connect (Osc index) (OvertoneGain index),
         Connect (OvertoneGain index) MasterGain,
         Start (Osc index) time,
         Stop (Osc index) (js_add (js_add time duration) (Fin 0.1))])"

text \<open>
  The calls of one \<open>createMusicBoxTone(time, midiNote, velocity, duration)\<close>. An omitted
  \<open>velocity\<close> or \<open>duration\<close> (\<open>None\<close>) takes the default of the parameter.
\<close>

definition toneCalls :: "jsnum \<Rightarrow> jsnum \<Rightarrow> jsnum option \<Rightarrow> jsnum option \<Rightarrow> audio_call list" where
  "toneCalls time midiNote velocity_arg duration_arg =
     (let velocity = (case velocity_arg of None \<Rightarrow> Fin 0.3 | Some v \<Rightarrow> v);
          duration = (case duration_arg of None \<Rightarrow> Fin 1.0 | Some d \<Rightarrow> d);
          fundamentalFreq = midiToFreq midiNote
      in [CreateGain MasterGain,
          Connect MasterGain Destination,
          SetValueAtTime (Gain MasterGain) (Fin 0) time,
          LinearRampToValueAtTime (Gain MasterGain) velocity (js_add time (Fin 0.005)),
          ExponentialRampToValueAtTime (Gain MasterGain) (js_mul velocity (Fin 0.1))
            (js_add time (js_mul duration (Fin 0.3))),
          ExponentialRampToValueAtTime (Gain MasterGain) (Fin 0.0001) (js_add time duration)]
         @ concat (map (overtoneCalls fundamentalFreq time duration) (enumerate 0 overtoneRatios)))"

definition createMusicBoxTone ::
    "jsnum \<Rightarrow> jsnum \<Rightarrow> jsnum option \<Rightarrow> jsnum option \<Rightarrow> app_state \<Rightarrow> app_state" where
  "createMusicBoxTone time midiNote velocity_arg duration_arg s =
     (let s1 = getAudioContext s
      in case audioCtx s1 of
           None \<Rightarrow> s1
         | Some localAudioCtx \<Rightarrow>
             s1\<lparr>audioCtx := Some (localAudioCtx\<lparr>scheduled := scheduled localAudioCtx @
                   [toneCalls time midiNote velocity_arg duration_arg]\<rparr>)\<rparr>)"

subsection \<open>Playback\<close>

definition totalPlaybackDuration :: real where
  "totalPlaybackDuration = 8"

definition numTimeSteps :: nat where
  "numTimeSteps = nat \<lfloor>totalPlaybackDuration * 4\<rfloor>"

definition timeStepDuration :: real where
  "timeStepDuration = totalPlaybackDuration / real numTimeSteps"

definition timeSlotIndex :: "config \<Rightarrow> point \<Rightarrow> jsnum" where
  "timeSlotIndex cfg p =
     Math_floor (mapRange (Fin (x p)) (Fin 0) (Fin (canvasWidth cfg)) (Fin 0)
       (js_sub (Fin (real numTimeSteps)) (Fin 1)))"

text \<open>The array index a finite number denotes.\<close>

fun index_of :: "jsnum \<Rightarrow> nat" where
  "index_of (Fin i) = nat \<lfloor>i\<rfloor>"
| "index_of PInf = 0"
| "index_of NInf = 0"
| "index_of NaN = 0"

definition pushPoint :: "config \<Rightarrow> point list list \<Rightarrow> point \<Rightarrow> point list list" where
  "pushPoint cfg slots p =
     (let i = timeSlotIndex cfg p
      in if js_ge i (Fin 0) \<and> js_lt i (Fin (real numTimeSteps))
         then slots[index_of i := slots ! index_of i @ [p]]
         else slots)"

definition notesInTimeSlots :: "config \<Rightarrow> point list \<Rightarrow> point list list" where
  "notesInTimeSlots cfg sortedPoints =
     foldl (pushPoint cfg) (replicate numTimeSteps []) sortedPoints"

record ToneEvent =
  startTime :: jsnum
  noteNumber :: jsnum
  loudness :: jsnum
  duration :: jsnum

text \<open>
  The arguments of the \<open>createMusicBoxTone\<close> call for the representative point of
  slot \<open>slotIndex\<close>; \<open>now\<close> is \<open>currentTime\<close> of the audio context.
\<close>

definition pointTone :: "config \<Rightarrow> real \<Rightarrow> nat \<Rightarrow> point \<Rightarrow> ToneEvent" where
  "pointTone cfg now slotIndex representativePoint =
     (let scheduledTime = js_add (Fin now) (js_mul (Fin (real slotIndex)) (Fin timeStepDuration));
          velocity = mapRange (Fin (size representativePoint)) (minBrushSize cfg) (maxBrushSize cfg)
                       (Fin 0.2) (Fin 0.5);
          noteDuration = mapRange (Fin (size representativePoint)) (minBrushSize cfg) (maxBrushSize cfg)
                       (Fin 0.8) (Fin 1.5)
      in \<lparr>startTime = scheduledTime,
          noteNumber = currentMidiNote (canvasHeight cfg) representativePoint,
          loudness = velocity,
          duration = noteDuration\<rparr>)"

text \<open>
  One round of the loop over the slots: nothing for an empty slot, otherwise the tone
  of the first point of the slot sorted by \<open>y\<close>. \<open>Array.prototype.sort\<close> is stable
  and its comparator \<open>a.y - b.y\<close> is a total preorder on finite numbers, so the result
  is the stable ascending sort by the key, which \<open>sort_key\<close> computes.
\<close>

definition slotEvents :: "config \<Rightarrow> real \<Rightarrow> nat \<times> point list \<Rightarrow> (nat \<times> ToneEvent) list" where
  "slotEvents cfg now ip =
     (case ip of (slotIndex, pointsInSlot) \<Rightarrow>
        if length pointsInSlot = 0 then []
        else let representativePoint = hd (sort_key y pointsInSlot)
             in [(slotIndex, pointTone cfg now slotIndex representativePoint)])"

text \<open>The tones of one playback, each with the index of its slot, in slot order.\<close>

definition playTones :: "config \<Rightarrow> real \<Rightarrow> point list \<Rightarrow> (nat \<times> ToneEvent) list" where
  "playTones cfg now points =
     (let sortedPoints = sort_key x points
      in concat (map (slotEvents cfg now) (enumerate 0 (notesInTimeSlots cfg sortedPoints))))"

definition emitTone :: "app_state \<Rightarrow> nat \<times> ToneEvent \<Rightarrow> app_state" where
  "emitTone s ie =
     createMusicBoxTone (startTime (snd ie)) (noteNumber (snd ie))
       (Some (loudness (snd ie))) (Some (duration (snd ie))) s"

text \<open>The click handler of the play button.\<close>

definition play :: "config \<Rightarrow> real \<Rightarrow> app_state \<Rightarrow> app_state" where
  "play cfg now s =
     (if length (drawnPoints s) = 0 then s\<lparr>console := console s @ [''Nothing to play.'']\<rparr>
      else
        let s1 = s\<lparr>console := console s @ [''Playing music box sounds...'']\<rparr>;
            s2 = getAudioContext s1
        in foldl emitTone s2 (playTones cfg now (drawnPoints s)))"

text \<open>The tones a click on the play button emits in a state.\<close>

definition emitted :: "config \<Rightarrow> real \<Rightarrow> app_state \<Rightarrow> (nat \<times> ToneEvent) list" where
  "emitted cfg now s =
     (if length (drawnPoints s) = 0 then [] else playTones cfg now (drawnPoints s))"

section \<open>Notions used in the properties\<close>

text \<open>The scale degree the handler computes on a canvas of non-zero height.\<close>

definition degree :: "real \<Rightarrow> real \<Rightarrow> int" where
  "degree h yy = max 0 (min 13 \<lfloor>(yy - h) * 13 / (0 - h)\<rfloor>)"

text \<open>The semitones above the root of the degrees of two octaves of the major scale.\<close>

definition degreeSemitones :: "real list" where
  "degreeSemitones = [0, 2, 4, 5, 7, 9, 11, 12, 14, 16, 17, 19, 21, 23]"

text \<open>
  The pitch mapping in the words of the specification (section 4.1): the linear map
  of \<open>y\<close> from \<open>[canvasHeight, 0]\<close> to \<open>[0, displaySpan - 1]\<close>, floored and clamped,
  is the degree index; the note is
  \<open>60 + octaveOffset + 12 * octaveWithinCanvas + intervalOffset\<close>.
\<close>

definition linearMap_spec :: "real \<Rightarrow> real \<Rightarrow> real \<Rightarrow> real \<Rightarrow> real \<Rightarrow> real" where
  "linearMap_spec v inLo inHi outLo outHi = outLo + (v - inLo) / (inHi - inLo) * (outHi - outLo)"

definition degreeIndex_spec :: "ScaleSpec \<Rightarrow> real \<Rightarrow> real \<Rightarrow> int" where
  "degreeIndex_spec sp sy ch =
     (let displaySpan = 2 * int (length (scale sp))
      in max 0 (min (displaySpan - 1) \<lfloor>linearMap_spec sy ch 0 0 (of_int (displaySpan - 1))\<rfloor>))"

definition resolvePitch_spec :: "ScaleSpec \<Rightarrow> real \<Rightarrow> real \<Rightarrow> real" where
  "resolvePitch_spec sp sy ch =
     (let intervals = scale sp;
          degreeIndex = degreeIndex_spec sp sy ch;
          octaveWithinCanvas = degreeIndex div int (length intervals);
          intervalOffset = intervals ! nat (degreeIndex mod int (length intervals))
      in 60 + octaveOffset sp + 12 * of_int octaveWithinCanvas + intervalOffset)"



text \<open>The case labels of the switch in \<open>getColorOctaveAndScale\<close>.\<close>

definition recognizedColors :: "string set" where
  "recognizedColors = {''#FF0000'', ''#00FF00'', ''#0000FF'', ''#FFFF00'', ''#000000''}"

text \<open>The guard and the index of \<open>pushPoint\<close>: the point goes to slot \<open>i\<close>.\<close>

definition inSlot :: "config \<Rightarrow> nat \<Rightarrow> point \<Rightarrow> bool" where
  "inSlot cfg i p =
     (js_ge (timeSlotIndex cfg p) (Fin 0) \<and> js_lt (timeSlotIndex cfg p) (Fin (real numTimeSteps))
      \<and> index_of (timeSlotIndex cfg p) = i)"

text \<open>The calls that automate a parameter, that start or stop an oscillator, and the
  targets of the exponential ramps.\<close>

fun onParam :: "param \<Rightarrow> audio_call \<Rightarrow> bool" where
  "onParam q (SetValueAtTime r _ _) = (r = q)"
| "onParam q (LinearRampToValueAtTime r _ _) = (r = q)"
| "onParam q (ExponentialRampToValueAtTime r _ _) = (r = q)"
| "onParam q _ = False"

fun isStartStop :: "audio_call \<Rightarrow> bool" where
  "isStartStop (Start _ _) = True"
| "isStartStop (Stop _ _) = True"
| "isStartStop _ = False"

fun expTargets :: "audio_call list \<Rightarrow> jsnum list" where
  "expTargets [] = []"
| "expTargets (ExponentialRampToValueAtTime _ v _ # cs) = v # expTargets cs"
| "expTargets (_ # cs) = expTargets cs"

text \<open>The tones already scheduled on the audio context of a state.\<close>

definition scheduledOf :: "app_state \<Rightarrow> audio_call list list" where
  "scheduledOf s = (case audioCtx s of None \<Rightarrow> [] | Some c \<Rightarrow> scheduled c)"

text \<open>The backend calls of an emitted tone.\<close>

definition eventCalls :: "nat \<times> ToneEvent \<Rightarrow> audio_call list" where
  "eventCalls ie = toneCalls (startTime (snd ie)) (noteNumber (snd ie))
     (Some (loudness (snd ie))) (Some (duration (snd ie)))"

text \<open>What the determinism property compares: slot index, note, loudness and duration.\<close>

definition toneData :: "nat \<times> ToneEvent \<Rightarrow> nat \<times> jsnum \<times> jsnum \<times> jsnum" where
  "toneData ie = (fst ie, noteNumber (snd ie), loudness (snd ie), duration (snd ie))"

section \<open>Arithmetic of finite numbers\<close>

lemma numTimeSteps_eq: "numTimeSteps = 32"
  by (simp add: numTimeSteps_def totalPlaybackDuration_def)

lemma clamp_int:
  "Math_max (Fin 0) (Math_min (Fin (of_int n)) (Fin (of_int i))) = Fin (of_int (max 0 (min n i)))"
  by (simp add: Math_max_def Math_min_def max_def min_def)

lemma Math_floor_div_int:
  "n \<noteq> 0 \<Longrightarrow> Math_floor (js_div (Fin (of_int d)) (Fin (of_int n))) = Fin (of_int (d div n))"
  by (simp add: floor_divide_of_int_eq)

lemma js_rem_int:
  assumes "0 \<le> d" "0 < n"
  shows "js_rem (Fin (of_int d)) (Fin (of_int n)) = Fin (of_int (d mod n))"
proof -
  have "trunc (of_int d / of_int n) = d div n"
    using assms by (simp add: trunc_def floor_divide_of_int_eq)
  moreover have "real_of_int d - of_int n * of_int (d div n) = of_int (d mod n)"
    by (simp add: minus_mult_div_eq_mod flip: of_int_mult of_int_diff)
  ultimately show ?thesis using assms by simp
qed

lemma js_index_int:
  "0 \<le> k \<Longrightarrow> nat k < length xs \<Longrightarrow> js_index xs (Fin (of_int k)) = Fin (xs ! nat k)"
  by simp

lemma mapRange_Fin:
  "b \<noteq> a \<Longrightarrow>
   mapRange (Fin v) (Fin a) (Fin b) (Fin c) (Fin d) = Fin ((v - a) * (d - c) / (b - a) + c)"
  by (simp add: mapRange_def js_sub_def)

section \<open>The pitch of a sample\<close>

lemma scale_getColorOctaveAndScale:
  "scale (getColorOctaveAndScale c) = DIATONIC_MAJOR_INTERVALS"
  by (simp add: getColorOctaveAndScale_def Let_def)

lemma degree_range: "0 \<le> degree h yy" "degree h yy \<le> 13"
  by (simp_all add: degree_def)

text \<open>On a canvas of non-zero height every step of the derivation is finite.\<close>

lemma currentMidiNote_degree:
  assumes "h \<noteq> 0"
  shows "currentMidiNote h p =
    Fin (60 + octaveOffset (getColorOctaveAndScale (color p))
         + of_int (degree h (y p) div 7) * 12
         + DIATONIC_MAJOR_INTERVALS ! nat (degree h (y p) mod 7))"
proof -
  let ?d = "degree h (y p)"
  have len: "Fin (real (length DIATONIC_MAJOR_INTERVALS)) = Fin (of_int 7)"
    by (simp add: DIATONIC_MAJOR_INTERVALS_def)
  have span: "js_sub (js_mul (Fin (of_int 7)) (Fin 2)) (Fin 1) = Fin (of_int 13)"
    by (simp add: js_sub_def)
  have i0: "Math_floor (mapRange (Fin (y p)) (Fin h) (Fin 0) (Fin 0) (Fin (of_int 13)))
      = Fin (of_int \<lfloor>(y p - h) * 13 / (0 - h)\<rfloor>)"
    using assms by (simp add: mapRange_Fin)
  have cl: "Math_max (Fin 0)
        (Math_min (Fin (of_int 13)) (Fin (of_int \<lfloor>(y p - h) * 13 / (0 - h)\<rfloor>)))
      = Fin (of_int ?d)"
    unfolding clamp_int degree_def by simp
  have oc: "Math_floor (js_div (Fin (of_int ?d)) (Fin (of_int 7))) = Fin (of_int (?d div 7))"
    by (rule Math_floor_div_int) simp
  have re: "js_rem (Fin (of_int ?d)) (Fin (of_int 7)) = Fin (of_int (?d mod 7))"
    by (rule js_rem_int) (simp_all add: degree_range)
  have ix: "js_index DIATONIC_MAJOR_INTERVALS (Fin (of_int (?d mod 7)))
      = Fin (DIATONIC_MAJOR_INTERVALS ! nat (?d mod 7))"
    by (rule js_index_int) (simp_all add: DIATONIC_MAJOR_INTERVALS_def)
  show ?thesis
    unfolding currentMidiNote_def Let_def scale_getColorOctaveAndScale len span i0 cl oc re ix
    by (simp add: baseMidiRootNote_def)
qed

lemma degreeIndex_spec_degree:
  "degreeIndex_spec (getColorOctaveAndScale c) yy h = degree h yy"
  by (simp add: degreeIndex_spec_def degree_def linearMap_spec_def scale_getColorOctaveAndScale
      DIATONIC_MAJOR_INTERVALS_def Let_def algebra_simps)

lemma semitones_table:
  assumes "0 \<le> d" "d \<le> 13"
  shows "of_int (d div 7) * 12 + DIATONIC_MAJOR_INTERVALS ! nat (d mod 7) = degreeSemitones ! nat d"
proof -
  have "d = 0 \<or> d = 1 \<or> d = 2 \<or> d = 3 \<or> d = 4 \<or> d = 5 \<or> d = 6 \<or> d = 7 \<or> d = 8
      \<or> d = 9 \<or> d = 10 \<or> d = 11 \<or> d = 12 \<or> d = 13"
    using assms by arith
  then show ?thesis
    by (elim disjE) (simp_all add: DIATONIC_MAJOR_INTERVALS_def degreeSemitones_def)
qed

lemma currentMidiNote_semitones:
  assumes "h \<noteq> 0"
  shows "currentMidiNote h p =
    Fin (60 + octaveOffset (getColorOctaveAndScale (color p)) + degreeSemitones ! nat (degree h (y p)))"
  using semitones_table [OF degree_range, of h "y p"]
  by (simp add: currentMidiNote_degree [OF assms])

lemma sorted_degreeSemitones: "sorted degreeSemitones"
  by (simp add: degreeSemitones_def)

lemma degree_antimono:
  assumes "0 < h" "y1 \<le> y2"
  shows "degree h y2 \<le> degree h y1"
proof -
  have "(y2 - h) * 13 / (0 - h) \<le> (y1 - h) * 13 / (0 - h)"
    using assms by (simp add: field_simps)
  then have "\<lfloor>(y2 - h) * 13 / (0 - h)\<rfloor> \<le> \<lfloor>(y1 - h) * 13 / (0 - h)\<rfloor>"
    by (rule floor_mono)
  then show ?thesis
    unfolding degree_def by linarith
qed

lemma degree_top:
  assumes "0 < h" "yy \<le> 0"
  shows "degree h yy = 13"
proof -
  have "(0 - h) * 13 / (0 - h) \<le> (yy - h) * 13 / (0 - h)"
    using assms by (simp add: field_simps)
  then have "13 \<le> (yy - h) * 13 / (0 - h)" using assms by simp
  then have "13 \<le> \<lfloor>(yy - h) * 13 / (0 - h)\<rfloor>" by linarith
  then show ?thesis unfolding degree_def by simp
qed

lemma degree_bottom:
  assumes "0 < h" "h \<le> yy"
  shows "degree h yy = 0"
proof -
  have "(yy - h) * 13 / (0 - h) \<le> 0"
    using assms by (simp add: field_simps)
  then have "\<lfloor>(yy - h) * 13 / (0 - h)\<rfloor> \<le> 0" by linarith
  then show ?thesis unfolding degree_def by simp
qed

lemma getColorOctaveAndScale_unrecognized:
  "toUpperCase c \<notin> recognizedColors \<Longrightarrow>
   getColorOctaveAndScale c = \<lparr>octaveOffset = 0, scale = [0, 2, 4, 5, 7, 9, 11]\<rparr>"
  by (simp add: getColorOctaveAndScale_def recognizedColors_def DIATONIC_MAJOR_INTERVALS_def Let_def)

lemma toUpperCase_labels:
  "toUpperCase ''#FF0000'' = ''#FF0000''"
  "toUpperCase ''#FFFF00'' = ''#FFFF00''"
  "toUpperCase ''#000000'' = ''#000000''"
  by (simp_all add: toUpperCase_def toUpperCase_char_def)

lemma getColorOctaveAndScale_base:
  assumes "c \<in> {''#FFFF00'', ''#000000'', ''#FF0000''} \<or> toUpperCase c \<notin> recognizedColors"
  shows "getColorOctaveAndScale c = \<lparr>octaveOffset = 0, scale = DIATONIC_MAJOR_INTERVALS\<rparr>"
  using assms
  by (auto simp: getColorOctaveAndScale_def recognizedColors_def toUpperCase_labels Let_def)

lemma currentMidiNote_color_cong:
  "getColorOctaveAndScale (color p) = getColorOctaveAndScale (color q) \<Longrightarrow> y p = y q \<Longrightarrow>
   currentMidiNote h p = currentMidiNote h q"
  by (simp add: currentMidiNote_def)

text \<open>
  C4. For a fixed colour and a positive canvas height the pitch is monotone
  non-increasing in \<open>y\<close>: of two samples of the same colour, the one with the larger
  \<open>y\<close> gets a note that is less than or equal to the note of the other.
\<close>

theorem pitch_monotone:
  assumes "0 < ch" and "color p = color q" and "y p \<le> y q"
  shows "\<exists>a b. currentMidiNote ch p = Fin a \<and> currentMidiNote ch q = Fin b \<and> b \<le> a"
proof -
  have h: "ch \<noteq> 0" using assms(1) by simp
  have d: "nat (degree ch (y q)) \<le> nat (degree ch (y p))"
    using degree_antimono [OF assms(1) assms(3)] by simp
  have "nat (degree ch (y p)) < length degreeSemitones"
    using degree_range [of ch "y p"] by (simp add: degreeSemitones_def)
  with d have "degreeSemitones ! nat (degree ch (y q)) \<le> degreeSemitones ! nat (degree ch (y p))"
    by (rule sorted_nth_mono [OF sorted_degreeSemitones])
  then show ?thesis
    by (simp add: currentMidiNote_semitones [OF h] assms(2))
qed

theorem pitch_monotone_witness:
  "\<exists>a b. currentMidiNote 400 \<lparr>x = 300, y = 50, color = ''#FF0000'', size = 5\<rparr> = Fin a
       \<and> currentMidiNote 400 \<lparr>x = 300, y = 350, color = ''#FF0000'', size = 5\<rparr> = Fin b
       \<and> b \<le> a"
  using pitch_monotone [of 400 "\<lparr>x = 300, y = 50, color = ''#FF0000'', size = 5\<rparr>"
      "\<lparr>x = 300, y = 350, color = ''#FF0000'', size = 5\<rparr>"]
  by simp

text \<open>
  C5. For a fixed colour and a positive canvas height, a \<open>y\<close> below \<open>0\<close> gives the
  note of \<open>y = 0\<close> and a \<open>y\<close> above the canvas height gives the note of
  \<open>y = canvasHeight\<close>; the value is clamped and the note is a number in every case.
\<close>

theorem pitch_clamped:
  assumes "0 < ch"
  shows "(y p < 0 \<longrightarrow> currentMidiNote ch p = currentMidiNote ch (p\<lparr>y := 0\<rparr>))
       \<and> (ch < y p \<longrightarrow> currentMidiNote ch p = currentMidiNote ch (p\<lparr>y := ch\<rparr>))
       \<and> (\<exists>n. currentMidiNote ch p = Fin n)"
proof -
  have h: "ch \<noteq> 0" using assms by simp
  have "degree ch (y p) = degree ch 0" if "y p < 0"
    using that degree_top [OF assms, of "y p"] degree_top [OF assms, of 0] by simp
  moreover have "degree ch (y p) = degree ch ch" if "ch < y p"
    using that degree_bottom [OF assms, of "y p"] degree_bottom [OF assms, of ch] by simp
  ultimately show ?thesis
    by (simp add: currentMidiNote_semitones [OF h])
qed

theorem pitch_clamped_witness:
  "currentMidiNote 400 \<lparr>x = 300, y = - 5, color = ''#00FF00'', size = 5\<rparr>
     = currentMidiNote 400 \<lparr>x = 300, y = 0, color = ''#00FF00'', size = 5\<rparr>
   \<and> currentMidiNote 400 \<lparr>x = 300, y = 450, color = ''#00FF00'', size = 5\<rparr>
     = currentMidiNote 400 \<lparr>x = 300, y = 400, color = ''#00FF00'', size = 5\<rparr>"
  using pitch_clamped [of 400 "\<lparr>x = 300, y = - 5, color = ''#00FF00'', size = 5\<rparr>"]
    pitch_clamped [of 400 "\<lparr>x = 300, y = 450, color = ''#00FF00'', size = 5\<rparr>"]
  by simp

text \<open>
  C7. A colour that the switch does not recognise (its upper-cased form is none of the
  case labels) gets the default scale specification, octave offset \<open>0\<close> and the
  diatonic major intervals \<open>[0, 2, 4, 5, 7, 9, 11]\<close>. The lookup is total, and on a
  canvas of non-zero height the note is a number for every colour.
\<close>

theorem unknown_color_default:
  assumes "toUpperCase c \<notin> recognizedColors" and "ch \<noteq> 0"
  shows "getColorOctaveAndScale c = \<lparr>octaveOffset = 0, scale = [0, 2, 4, 5, 7, 9, 11]\<rparr>
       \<and> currentMidiNote ch (p\<lparr>color := c\<rparr>) =
           Fin (resolvePitch_spec \<lparr>octaveOffset = 0, scale = [0, 2, 4, 5, 7, 9, 11]\<rparr> (y p) ch)
       \<and> (\<forall>c'. \<exists>n. currentMidiNote ch (p\<lparr>color := c'\<rparr>) = Fin n)"
proof -
  have g: "getColorOctaveAndScale c = \<lparr>octaveOffset = 0, scale = [0, 2, 4, 5, 7, 9, 11]\<rparr>"
    using assms(1) by (rule getColorOctaveAndScale_unrecognized)
  have "currentMidiNote ch (p\<lparr>color := c\<rparr>) =
      Fin (resolvePitch_spec (getColorOctaveAndScale c) (y p) ch)"
    unfolding currentMidiNote_degree [OF assms(2)] resolvePitch_spec_def Let_def
      degreeIndex_spec_degree
    by (simp add: scale_getColorOctaveAndScale DIATONIC_MAJOR_INTERVALS_def)
  with g show ?thesis
    by (simp add: currentMidiNote_semitones [OF assms(2)])
qed

theorem unknown_color_default_witness:
  "getColorOctaveAndScale ''#ff00ff'' = \<lparr>octaveOffset = 0, scale = [0, 2, 4, 5, 7, 9, 11]\<rparr>
   \<and> currentMidiNote 400 \<lparr>x = 10, y = 200, color = ''#ff00ff'', size = 5\<rparr> = Fin 71"
  using unknown_color_default [of "''#ff00ff''" 400
      "\<lparr>x = 10, y = 200, color = ''#ff00ff'', size = 5\<rparr>"]
  by (simp add: recognizedColors_def toUpperCase_def toUpperCase_char_def
      resolvePitch_spec_def degreeIndex_spec_def linearMap_spec_def Let_def)

text \<open>
  C10. Yellow (\<open>#FFFF00\<close>), black (\<open>#000000\<close>), red (\<open>#FF0000\<close>) and every
  unrecognised colour get the same scale specification, octave offset \<open>0\<close> with the
  diatonic major scale, and so the same note for every \<open>y\<close> and every canvas height.
\<close>

theorem base_octave_colors_same_note:
  assumes "c1 \<in> {''#FFFF00'', ''#000000'', ''#FF0000''} \<or> toUpperCase c1 \<notin> recognizedColors"
    and "c2 \<in> {''#FFFF00'', ''#000000'', ''#FF0000''} \<or> toUpperCase c2 \<notin> recognizedColors"
  shows "getColorOctaveAndScale c1 = \<lparr>octaveOffset = 0, scale = [0, 2, 4, 5, 7, 9, 11]\<rparr>
       \<and> currentMidiNote ch (p\<lparr>color := c1\<rparr>) = currentMidiNote ch (p\<lparr>color := c2\<rparr>)"
proof -
  have "currentMidiNote ch (p\<lparr>color := c1\<rparr>) = currentMidiNote ch (p\<lparr>color := c2\<rparr>)"
    by (rule currentMidiNote_color_cong)
       (simp_all add: getColorOctaveAndScale_base [OF assms(1)] getColorOctaveAndScale_base [OF assms(2)])
  then show ?thesis
    by (simp add: getColorOctaveAndScale_base [OF assms(1)] DIATONIC_MAJOR_INTERVALS_def)
qed

theorem base_octave_colors_same_note_witness:
  "currentMidiNote 400 \<lparr>x = 10, y = 120, color = ''#FFFF00'', size = 5\<rparr>
     = currentMidiNote 400 \<lparr>x = 10, y = 120, color = ''purple'', size = 5\<rparr>
   \<and> currentMidiNote 400 \<lparr>x = 10, y = 120, color = ''#000000'', size = 5\<rparr>
     = currentMidiNote 400 \<lparr>x = 10, y = 120, color = ''#FF0000'', size = 5\<rparr>"
  using base_octave_colors_same_note [of "''#FFFF00''" "''purple''" 400
      "\<lparr>x = 10, y = 120, color = ''#FFFF00'', size = 5\<rparr>"]
    base_octave_colors_same_note [of "''#000000''" "''#FF0000''" 400
      "\<lparr>x = 10, y = 120, color = ''#000000'', size = 5\<rparr>"]
  by (simp add: recognizedColors_def toUpperCase_def toUpperCase_char_def)

section \<open>Quantisation into time slots\<close>

lemma timeSlotIndex_Fin:
  "canvasWidth cfg \<noteq> 0 \<Longrightarrow> timeSlotIndex cfg p = Fin (of_int \<lfloor>x p * 31 / canvasWidth cfg\<rfloor>)"
  by (simp add: timeSlotIndex_def numTimeSteps_eq js_sub_def mapRange_Fin)

lemma index_of_bound:
  "js_ge j (Fin 0) \<Longrightarrow> js_lt j (Fin (real n)) \<Longrightarrow> index_of j < n"
  by (cases j) (simp_all add: js_ge_def, linarith)

lemma pushPoint_length: "length (pushPoint cfg slots p) = length slots"
  by (simp add: pushPoint_def Let_def)

lemma pushPoint_nth:
  assumes "length slots = numTimeSteps" "i < numTimeSteps"
  shows "pushPoint cfg slots p ! i = slots ! i @ (if inSlot cfg i p then [p] else [])"
proof (cases "js_ge (timeSlotIndex cfg p) (Fin 0) \<and> js_lt (timeSlotIndex cfg p) (Fin (real numTimeSteps))")
  case True
  then have "index_of (timeSlotIndex cfg p) < length slots"
    using index_of_bound assms(1) by simp
  with True assms show ?thesis
    by (simp add: pushPoint_def inSlot_def Let_def nth_list_update)
next
  case False
  then show ?thesis
    by (auto simp: pushPoint_def inSlot_def Let_def)
qed

lemma foldl_pushPoint_nth:
  "length slots = numTimeSteps \<Longrightarrow> i < numTimeSteps \<Longrightarrow>
   foldl (pushPoint cfg) slots pts ! i = slots ! i @ filter (inSlot cfg i) pts"
proof (induction pts arbitrary: slots)
  case Nil
  then show ?case by simp
next
  case (Cons p pts)
  have "length (pushPoint cfg slots p) = numTimeSteps"
    using Cons.prems(1) by (simp add: pushPoint_length)
  from Cons.IH [OF this Cons.prems(2)] show ?case
    by (simp add: pushPoint_nth [OF Cons.prems])
qed

lemma foldl_pushPoint_length:
  "length (foldl (pushPoint cfg) slots pts) = length slots"
  by (induction pts arbitrary: slots) (simp_all add: pushPoint_length)

lemma notesInTimeSlots_length: "length (notesInTimeSlots cfg pts) = numTimeSteps"
  by (simp add: notesInTimeSlots_def foldl_pushPoint_length)

lemma notesInTimeSlots_nth:
  "i < numTimeSteps \<Longrightarrow> notesInTimeSlots cfg pts ! i = filter (inSlot cfg i) pts"
  by (simp add: notesInTimeSlots_def foldl_pushPoint_nth)

text \<open>
  C3. For a sample whose \<open>x\<close> lies in \<open>[0, canvasWidth]\<close>, with a positive canvas
  width, the slot index \<open>floor(mapRange(x, 0, canvasWidth, 0, numTimeSteps - 1))\<close> is a
  number \<open>k\<close> in \<open>[0, numTimeSteps)\<close>, with \<open>numTimeSteps = 32\<close>; it is
  \<open>numTimeSteps - 1\<close> exactly when \<open>x = canvasWidth\<close>. The guard of the loop holds, so
  the sample is pushed to slot \<open>k\<close> and every such sample of the store is in the slot
  array.
\<close>

theorem slot_index_in_range:
  assumes "0 < canvasWidth cfg" and "0 \<le> x p" and "x p \<le> canvasWidth cfg"
  shows "\<exists>k. timeSlotIndex cfg p = Fin (real k) \<and> k < numTimeSteps
           \<and> (k = numTimeSteps - 1 \<longleftrightarrow> x p = canvasWidth cfg)
           \<and> (length slots = numTimeSteps \<longrightarrow>
                pushPoint cfg slots p = slots[k := slots ! k @ [p]])
           \<and> (p \<in> set pts \<longrightarrow> p \<in> set (notesInTimeSlots cfg pts ! k))"
proof -
  let ?w = "canvasWidth cfg"
  let ?q = "x p * 31 / ?w"
  let ?k = "nat \<lfloor>?q\<rfloor>"
  have w: "?w \<noteq> 0" using assms(1) by simp
  have q0: "0 \<le> ?q" using assms by simp
  have q31: "?q \<le> 31" using assms by (simp add: field_simps)
  have f0: "0 \<le> \<lfloor>?q\<rfloor>" using q0 by simp
  have f31: "\<lfloor>?q\<rfloor> \<le> 31" using q31 by linarith
  have idx: "timeSlotIndex cfg p = Fin (real ?k)"
    using f0 by (simp add: timeSlotIndex_Fin [OF w])
  have k: "?k < numTimeSteps" unfolding numTimeSteps_eq using f0 f31 by linarith
  have "\<lfloor>?q\<rfloor> = 31 \<longleftrightarrow> 31 \<le> ?q" using q31 by linarith
  also have "\<dots> \<longleftrightarrow> ?w \<le> x p" using assms(1) by (simp add: field_simps)
  also have "\<dots> \<longleftrightarrow> x p = ?w" using assms(3) by auto
  finally have last: "?k = numTimeSteps - 1 \<longleftrightarrow> x p = ?w"
    unfolding numTimeSteps_eq using f0 by linarith
  have guard: "js_ge (timeSlotIndex cfg p) (Fin 0)
      \<and> js_lt (timeSlotIndex cfg p) (Fin (real numTimeSteps))"
    using k by (simp add: idx js_ge_def)
  have ix: "index_of (timeSlotIndex cfg p) = ?k"
    by (simp add: idx)
  have push: "pushPoint cfg slots p = slots[?k := slots ! ?k @ [p]]"
    using guard by (simp add: pushPoint_def Let_def ix)
  have "inSlot cfg ?k p" using guard ix by (simp add: inSlot_def)
  then have mem: "p \<in> set pts \<longrightarrow> p \<in> set (notesInTimeSlots cfg pts ! ?k)"
    by (simp add: notesInTimeSlots_nth [OF k])
  from idx k last push mem show ?thesis by blast
qed

theorem slot_index_in_range_witness:
  "timeSlotIndex \<lparr>canvasWidth = 600, canvasHeight = 400, minBrushSize = Fin 2, maxBrushSize = Fin 20\<rparr>
     \<lparr>x = 600, y = 0, color = ''#00FF00'', size = 20\<rparr> = Fin 31
   \<and> pushPoint \<lparr>canvasWidth = 600, canvasHeight = 400, minBrushSize = Fin 2, maxBrushSize = Fin 20\<rparr>
       (replicate numTimeSteps []) \<lparr>x = 600, y = 0, color = ''#00FF00'', size = 20\<rparr> ! 31
     = [\<lparr>x = 600, y = 0, color = ''#00FF00'', size = 20\<rparr>]"
  using slot_index_in_range [of
      "\<lparr>canvasWidth = 600, canvasHeight = 400, minBrushSize = Fin 2, maxBrushSize = Fin 20\<rparr>"
      "\<lparr>x = 600, y = 0, color = ''#00FF00'', size = 20\<rparr>"
      "replicate numTimeSteps []"
      "[\<lparr>x = 600, y = 0, color = ''#00FF00'', size = 20\<rparr>]"]
  by (auto simp: timeSlotIndex_Fin numTimeSteps_eq)

lemma inSlot_Fin:
  "canvasWidth cfg \<noteq> 0 \<Longrightarrow>
   inSlot cfg i p \<longleftrightarrow> 0 \<le> \<lfloor>x p * 31 / canvasWidth cfg\<rfloor> \<and> \<lfloor>x p * 31 / canvasWidth cfg\<rfloor> < 32
      \<and> nat \<lfloor>x p * 31 / canvasWidth cfg\<rfloor> = i"
  by (simp add: inSlot_def timeSlotIndex_Fin js_ge_def numTimeSteps_eq) linarith

section \<open>One tone per slot\<close>

lemma hd_insort_key:
  "hd (insort_key f a xs) = (if xs = [] \<or> f a \<le> f (hd xs) then a else hd xs)"
  by (cases xs) simp_all

lemma sort_key_Nil_iff: "sort_key f xs = [] \<longleftrightarrow> xs = []"
  by (metis length_sort length_0_conv)

lemma hd_sort_key_first_min:
  "xs \<noteq> [] \<Longrightarrow>
   \<exists>k<length xs. hd (sort_key f xs) = xs ! k
     \<and> (\<forall>j<length xs. f (xs ! k) \<le> f (xs ! j))
     \<and> (\<forall>j<k. f (xs ! k) < f (xs ! j))"
proof (induction xs)
  case Nil
  then show ?case by simp
next
  case (Cons a xs)
  show ?case
  proof (cases "xs = []")
    case True
    then show ?thesis by simp
  next
    case False
    from Cons.IH [OF False] obtain k where k: "k < length xs"
      and hd: "hd (sort_key f xs) = xs ! k"
      and least: "\<forall>j<length xs. f (xs ! k) \<le> f (xs ! j)"
      and first: "\<forall>j<k. f (xs ! k) < f (xs ! j)"
      by blast
    have ne: "sort_key f xs \<noteq> []" using False by (simp add: sort_key_Nil_iff)
    show ?thesis
    proof (cases "f a \<le> f (xs ! k)")
      case True
      have "hd (sort_key f (a # xs)) = (a # xs) ! 0"
        using True hd by (simp add: hd_insort_key)
      moreover have "\<forall>j<length (a # xs). f ((a # xs) ! 0) \<le> f ((a # xs) ! j)"
      proof (intro allI impI)
        fix j assume "j < length (a # xs)"
        then show "f ((a # xs) ! 0) \<le> f ((a # xs) ! j)"
          using True least by (cases j) (auto intro: order_trans)
      qed
      ultimately show ?thesis by (intro exI [of _ 0]) simp
    next
      case False
      then have lt: "f (xs ! k) < f a" by simp
      have "hd (sort_key f (a # xs)) = (a # xs) ! Suc k"
        using False hd ne by (simp add: hd_insort_key)
      moreover have "\<forall>j<length (a # xs). f ((a # xs) ! Suc k) \<le> f ((a # xs) ! j)"
      proof (intro allI impI)
        fix j assume "j < length (a # xs)"
        then show "f ((a # xs) ! Suc k) \<le> f ((a # xs) ! j)"
          using lt least by (cases j) auto
      qed
      moreover have "\<forall>j<Suc k. f ((a # xs) ! Suc k) < f ((a # xs) ! j)"
      proof (intro allI impI)
        fix j assume "j < Suc k"
        then show "f ((a # xs) ! Suc k) < f ((a # xs) ! j)"
          using lt first by (cases j) auto
      qed
      ultimately show ?thesis using k by (intro exI [of _ "Suc k"]) simp
    qed
  qed
qed

lemma filter_slotEvents:
  "filter (\<lambda>e. fst e = i) (slotEvents cfg now (j, ps)) = (if j = i then slotEvents cfg now (j, ps) else [])"
  by (simp add: slotEvents_def Let_def)

lemma filter_concat_slotEvents:
  "filter (\<lambda>e. fst e = i) (concat (map (slotEvents cfg now) (enumerate n slots)))
   = (if n \<le> i \<and> i < n + length slots then slotEvents cfg now (i, slots ! (i - n)) else [])"
proof (induction slots arbitrary: n)
  case Nil
  show ?case by auto
next
  case (Cons ps slots)
  show ?case
    by (auto simp: Cons.IH filter_slotEvents Suc_diff_le)
qed

lemma playTones_slot:
  "i < numTimeSteps \<Longrightarrow>
   filter (\<lambda>e. fst e = i) (playTones cfg now pts)
     = slotEvents cfg now (i, filter (inSlot cfg i) (sort_key x pts))"
  by (simp add: playTones_def Let_def filter_concat_slotEvents notesInTimeSlots_length
      notesInTimeSlots_nth)

section \<open>Playback and the audio context\<close>

lemma scheduledOf_getAudioContext: "scheduledOf (getAudioContext s) = scheduledOf s"
  by (simp add: scheduledOf_def getAudioContext_def split: option.splits)

lemma createMusicBoxTone_audioCtx:
  "audioCtx (createMusicBoxTone t n v d s)
     = Some \<lparr>suspended = False, scheduled = scheduledOf s @ [toneCalls t n v d]\<rparr>"
  by (simp add: createMusicBoxTone_def getAudioContext_def scheduledOf_def split: option.splits)

lemma scheduledOf_emitTone: "scheduledOf (emitTone s ie) = scheduledOf s @ [eventCalls ie]"
  by (simp add: emitTone_def eventCalls_def scheduledOf_def [of "createMusicBoxTone _ _ _ _ _"]
      createMusicBoxTone_audioCtx)

lemma scheduledOf_foldl_emitTone:
  "scheduledOf (foldl emitTone s es) = scheduledOf s @ map eventCalls es"
  by (induction es arbitrary: s) (simp_all add: scheduledOf_emitTone)

lemma scheduledOf_console [simp]: "scheduledOf (s\<lparr>console := c\<rparr>) = scheduledOf s"
  by (simp add: scheduledOf_def)

lemma play_scheduled:
  "scheduledOf (play cfg now s) = scheduledOf s @ map eventCalls (emitted cfg now s)"
  by (simp add: play_def emitted_def Let_def scheduledOf_foldl_emitTone scheduledOf_getAudioContext)

text \<open>
  C2. For every slot of one playback that received at least one sample, exactly one
  tone is emitted for the slot. The samples of the slot are those of the \<open>x\<close>-sorted
  store that map to it, in that order; the tone is the one derived (note, loudness,
  duration) from the sample at a position \<open>k\<close> of the slot whose \<open>y\<close> is minimal in
  the slot and strictly smaller than the \<open>y\<close> of every earlier sample of the slot,
  that is the first sample of minimal \<open>y\<close>. No other sample of the slot contributes
  a tone.
\<close>

theorem one_tone_per_slot:
  assumes "i < numTimeSteps"
    and "slot = notesInTimeSlots cfg (sort_key x (drawnPoints s)) ! i"
    and "slot \<noteq> []"
  shows "slot = filter (inSlot cfg i) (sort_key x (drawnPoints s))
       \<and> (\<exists>k<length slot.
            filter (\<lambda>e. fst e = i) (emitted cfg now s) = [(i, pointTone cfg now i (slot ! k))]
            \<and> (\<forall>j<length slot. y (slot ! k) \<le> y (slot ! j))
            \<and> (\<forall>j<k. y (slot ! k) < y (slot ! j)))"
proof -
  have slot: "slot = filter (inSlot cfg i) (sort_key x (drawnPoints s))"
    using assms(1,2) by (simp add: notesInTimeSlots_nth)
  have "drawnPoints s \<noteq> []"
    using assms(3) slot by auto
  then have em: "emitted cfg now s = playTones cfg now (drawnPoints s)"
    by (simp add: emitted_def)
  have ev: "filter (\<lambda>e. fst e = i) (emitted cfg now s) = [(i, pointTone cfg now i (hd (sort_key y slot)))]"
    using assms(3) by (simp add: em playTones_slot [OF assms(1)] slotEvents_def Let_def flip: slot)
  from hd_sort_key_first_min [OF assms(3), of y] ev slot show ?thesis
    by auto
qed

theorem one_tone_per_slot_witness:
  "filter (\<lambda>e. fst e = 15)
     (emitted \<lparr>canvasWidth = 600, canvasHeight = 400, minBrushSize = Fin 2, maxBrushSize = Fin 20\<rparr> 0
        \<lparr>isDrawing = False, currentBrushColor = ''#FF0000'', currentBrushSize = 5,
        drawnPoints = [\<lparr>x = 300, y = 350, color = ''#FF0000'', size = 5\<rparr>,
                       \<lparr>x = 300, y = 50, color = ''#FF0000'', size = 5\<rparr>],
        audioCtx = None, canvasOps = [], console = []\<rparr>)
   = [(15, pointTone \<lparr>canvasWidth = 600, canvasHeight = 400, minBrushSize = Fin 2, maxBrushSize = Fin 20\<rparr> 0 15
        \<lparr>x = 300, y = 50, color = ''#FF0000'', size = 5\<rparr>)]"
  using one_tone_per_slot [of 15
      "[\<lparr>x = 300, y = 350, color = ''#FF0000'', size = 5\<rparr>, \<lparr>x = 300, y = 50, color = ''#FF0000'', size = 5\<rparr>]"
      "\<lparr>canvasWidth = 600, canvasHeight = 400, minBrushSize = Fin 2, maxBrushSize = Fin 20\<rparr>"
      "\<lparr>isDrawing = False, currentBrushColor = ''#FF0000'', currentBrushSize = 5,
        drawnPoints = [\<lparr>x = 300, y = 350, color = ''#FF0000'', size = 5\<rparr>,
                       \<lparr>x = 300, y = 50, color = ''#FF0000'', size = 5\<rparr>],
        audioCtx = None, canvasOps = [], console = []\<rparr>" 0]
  by (auto simp: numTimeSteps_eq notesInTimeSlots_nth inSlot_Fin less_Suc_eq numeral_2_eq_2)

lemma toneData_slotEvents:
  "map toneData (slotEvents cfg t1 ip) = map toneData (slotEvents cfg t2 ip)"
  by (cases ip) (simp add: slotEvents_def toneData_def pointTone_def Let_def)

lemma toneData_playTones:
  "map toneData (playTones cfg t1 pts) = map toneData (playTones cfg t2 pts)"
  by (simp add: playTones_def Let_def map_concat toneData_slotEvents [of cfg t1 _ t2] cong: map_cong)

text \<open>
  C9. Two playbacks on stores holding the same samples in the same order, with the
  same canvas dimensions and brush-size bounds, emit the same list of tones as far as
  slot index, note, loudness and duration go, whatever the clock of the audio context
  and the rest of the two states are.
\<close>

theorem playback_deterministic:
  assumes "drawnPoints s1 = drawnPoints s2"
  shows "map toneData (emitted cfg t1 s1) = map toneData (emitted cfg t2 s2)"
  using assms toneData_playTones [of cfg t1 "drawnPoints s2" t2] by (simp add: emitted_def)

theorem playback_deterministic_witness:
  "map toneData (emitted \<lparr>canvasWidth = 600, canvasHeight = 400, minBrushSize = Fin 2, maxBrushSize = Fin 20\<rparr> 0
        \<lparr>isDrawing = False, currentBrushColor = ''#FF0000'', currentBrushSize = 5,
        drawnPoints = [\<lparr>x = 300, y = 350, color = ''#FF0000'', size = 5\<rparr>,
                       \<lparr>x = 300, y = 50, color = ''#FF0000'', size = 5\<rparr>],
        audioCtx = None, canvasOps = [], console = []\<rparr>)
   = map toneData (emitted \<lparr>canvasWidth = 600, canvasHeight = 400, minBrushSize = Fin 2, maxBrushSize = Fin 20\<rparr> 7
        (\<lparr>isDrawing = False, currentBrushColor = ''#FF0000'', currentBrushSize = 5,
        drawnPoints = [\<lparr>x = 300, y = 350, color = ''#FF0000'', size = 5\<rparr>,
                       \<lparr>x = 300, y = 50, color = ''#FF0000'', size = 5\<rparr>],
        audioCtx = None, canvasOps = [], console = []\<rparr>
          \<lparr>audioCtx := Some \<lparr>suspended = True, scheduled = [[]]\<rparr>, console := [''x'']\<rparr>))"
  using playback_deterministic [of
      "\<lparr>isDrawing = False, currentBrushColor = ''#FF0000'', currentBrushSize = 5,
        drawnPoints = [\<lparr>x = 300, y = 350, color = ''#FF0000'', size = 5\<rparr>,
                       \<lparr>x = 300, y = 50, color = ''#FF0000'', size = 5\<rparr>],
        audioCtx = None, canvasOps = [], console = []\<rparr>"
      "\<lparr>isDrawing = False, currentBrushColor = ''#FF0000'', currentBrushSize = 5,
        drawnPoints = [\<lparr>x = 300, y = 350, color = ''#FF0000'', size = 5\<rparr>,
                       \<lparr>x = 300, y = 50, color = ''#FF0000'', size = 5\<rparr>],
        audioCtx = None, canvasOps = [], console = []\<rparr>
          \<lparr>audioCtx := Some \<lparr>suspended = True, scheduled = [[]]\<rparr>, console := [''x'']\<rparr>"
      "\<lparr>canvasWidth = 600, canvasHeight = 400, minBrushSize = Fin 2, maxBrushSize = Fin 20\<rparr>" 0 7]
  by simp

text \<open>
  C8. Clearing leaves the store empty. A click on the play button with an empty store
  emits no tone and only logs: the audio context is untouched and nothing is
  scheduled. In particular playing right after clearing does nothing, in every state.
\<close>

theorem clear_then_play_noop:
  "drawnPoints (clearCanvas cfg s) = []
   \<and> emitted cfg now (clearCanvas cfg s) = []
   \<and> audioCtx (play cfg now (clearCanvas cfg s)) = audioCtx s
   \<and> play cfg now (clearCanvas cfg s)
       = (clearCanvas cfg s)\<lparr>console := console (clearCanvas cfg s) @ [''Nothing to play.'']\<rparr>
   \<and> emitted cfg now (s\<lparr>drawnPoints := []\<rparr>) = []
   \<and> play cfg now (s\<lparr>drawnPoints := []\<rparr>)
       = s\<lparr>drawnPoints := [], console := console s @ [''Nothing to play.'']\<rparr>"
  by (simp add: clearCanvas_def emitted_def play_def)

section \<open>The schedule of one tone\<close>

lemma enumerate_overtoneRatios:
  "enumerate 0 overtoneRatios = [(0, 1), (1, 2.01), (2, 3.03), (3, 4.05), (4, 5.8)]"
  by (simp add: overtoneRatios_def)

lemma pointTone_loudness_range:
  assumes "lo < hi" and "lo \<le> size p" and "size p \<le> hi"
    and "minBrushSize cfg = Fin lo" and "maxBrushSize cfg = Fin hi"
  shows "\<exists>v. loudness (pointTone cfg now i p) = Fin v \<and> 0.2 \<le> v \<and> v \<le> 0.5"
proof -
  let ?r = "(size p - lo) / (hi - lo)"
  have eq: "loudness (pointTone cfg now i p) = Fin (0.3 * ?r + 0.2)"
    using assms(1) by (simp add: pointTone_def Let_def assms(4,5) mapRange_Fin)
  have "0 \<le> ?r" using assms(1,2) by simp
  moreover have "?r \<le> 1" using assms(1,3) by simp
  ultimately have "0.2 \<le> 0.3 * ?r + 0.2 \<and> 0.3 * ?r + 0.2 \<le> 0.5"
    by linarith
  with eq show ?thesis by blast
qed

text \<open>
  C6. A call \<open>createMusicBoxTone(startTime, noteNumber, loudness, duration)\<close> schedules
  one more tone on the audio context. Its calls on the gain of the master node are
  exactly: value \<open>0\<close> at \<open>startTime\<close>, a linear ramp to \<open>loudness\<close> at
  \<open>startTime + 0.005\<close>, an exponential ramp to \<open>loudness * 0.1\<close> at
  \<open>startTime + 0.3 * duration\<close> and an exponential ramp to \<open>0.0001\<close> at
  \<open>startTime + duration\<close>. Its start and stop calls are exactly those of the five
  oscillators, each started at \<open>startTime\<close> and stopped at
  \<open>startTime + duration + 0.1\<close>. The exponential ramps target \<open>loudness * 0.1\<close> and
  \<open>0.0001\<close>, so for a loudness other than zero none targets zero (the loudness of a
  tone event lies in \<open>(0, 1]\<close>; playback passes one in \<open>[0.2, 0.5]\<close>).
\<close>

theorem tone_schedule:
  "audioCtx (createMusicBoxTone (Fin t) n (Some (Fin v)) (Some (Fin d)) s)
     = Some \<lparr>suspended = False,
             scheduled = scheduledOf s @ [toneCalls (Fin t) n (Some (Fin v)) (Some (Fin d))]\<rparr>
   \<and> filter (onParam (Gain MasterGain)) (toneCalls (Fin t) n (Some (Fin v)) (Some (Fin d)))
     = [SetValueAtTime (Gain MasterGain) (Fin 0) (Fin t),
        LinearRampToValueAtTime (Gain MasterGain) (Fin v) (Fin (t + 0.005)),
        ExponentialRampToValueAtTime (Gain MasterGain) (Fin (v * 0.1)) (Fin (t + 0.3 * d)),
        ExponentialRampToValueAtTime (Gain MasterGain) (Fin 0.0001) (Fin (t + d))]
   \<and> filter isStartStop (toneCalls (Fin t) n (Some (Fin v)) (Some (Fin d)))
     = concat (map (\<lambda>i. [Start (Osc i) (Fin t), Stop (Osc i) (Fin (t + d + 0.1))]) [0, 1, 2, 3, 4])
   \<and> expTargets (toneCalls (Fin t) n (Some (Fin v)) (Some (Fin d))) = [Fin (v * 0.1), Fin 0.0001]
   \<and> (v \<noteq> 0 \<longrightarrow> Fin 0 \<notin> set (expTargets (toneCalls (Fin t) n (Some (Fin v)) (Some (Fin d)))))"
proof -
  have "filter (onParam (Gain MasterGain)) (toneCalls (Fin t) n (Some (Fin v)) (Some (Fin d)))
     = [SetValueAtTime (Gain MasterGain) (Fin 0) (Fin t),
        LinearRampToValueAtTime (Gain MasterGain) (Fin v) (Fin (t + 0.005)),
        ExponentialRampToValueAtTime (Gain MasterGain) (Fin (v * 0.1)) (Fin (t + 0.3 * d)),
        ExponentialRampToValueAtTime (Gain MasterGain) (Fin 0.0001) (Fin (t + d))]"
    by (simp add: toneCalls_def Let_def enumerate_overtoneRatios overtoneCalls_def)
  moreover have "filter isStartStop (toneCalls (Fin t) n (Some (Fin v)) (Some (Fin d)))
     = concat (map (\<lambda>i. [Start (Osc i) (Fin t), Stop (Osc i) (Fin (t + d + 0.1))]) [0, 1, 2, 3, 4])"
    by (simp add: toneCalls_def Let_def enumerate_overtoneRatios overtoneCalls_def)
  moreover have e: "expTargets (toneCalls (Fin t) n (Some (Fin v)) (Some (Fin d)))
     = [Fin (v * 0.1), Fin 0.0001]"
    by (simp add: toneCalls_def Let_def enumerate_overtoneRatios overtoneCalls_def)
  moreover have "v \<noteq> 0 \<longrightarrow>
      Fin 0 \<notin> set (expTargets (toneCalls (Fin t) n (Some (Fin v)) (Some (Fin d))))"
    unfolding e by simp
  ultimately show ?thesis
    by (simp only: createMusicBoxTone_audioCtx simp_thms)
qed

theorem tone_schedule_witness:
  "Fin 0 \<notin> set (expTargets (toneCalls (Fin 0) (Fin 60) (Some (Fin 0.3)) (Some (Fin 1))))
   \<and> expTargets (toneCalls (Fin 0) (Fin 60) (Some (Fin 0.3)) (Some (Fin 1))) = [Fin 0.03, Fin 0.0001]"
  using tone_schedule [of 0 "Fin 60" "0.3" 1]
  by simp

section \<open>The pitch of a sample in double arithmetic\<close>





lemma floor_log2_bounds:
  assumes "0 < a"
  shows "2 powr of_int \<lfloor>log 2 a\<rfloor> \<le> a" "a < 2 powr of_int (\<lfloor>log 2 a\<rfloor> + 1)"
proof -
  have "\<lfloor>log 2 a\<rfloor> = \<lfloor>log 2 a\<rfloor>" ..
  then have "2 powr of_int \<lfloor>log 2 a\<rfloor> \<le> a \<and> a < 2 powr of_int (\<lfloor>log 2 a\<rfloor> + 1)"
    using assms by (subst (asm) floor_log_eq_powr_iff) simp_all
  then show "2 powr of_int \<lfloor>log 2 a\<rfloor> \<le> a" "a < 2 powr of_int (\<lfloor>log 2 a\<rfloor> + 1)"
    by simp_all
qed






























section \<open>Worked playbacks\<close>

lemma replicate_32: "replicate 32 z = [z,z,z,z,z,z,z,z,z,z,z,z,z,z,z,z,z,z,z,z,z,z,z,z,z,z,z,z,z,z,z,z]"
  by (simp add: numeral_eq_Suc)

lemma currentMidiNote_eval:
  "h \<noteq> 0 \<Longrightarrow> currentMidiNote h \<lparr>x = px, y = py, color = c, size = sz\<rparr>
    = Fin (60 + octaveOffset (getColorOctaveAndScale c) + degreeSemitones ! nat (degree h py))"
  by (simp add: currentMidiNote_semitones)

text \<open>
  The scenario of the specification: on a 600 by 400 canvas with brush sizes from 2 to
  20, a red sample at \<open>(10, 400)\<close> of size 5 and a green one at \<open>(590, 0)\<close> of size 20
  give two tones, note 60 in slot 0 and note 95 in slot 30.
\<close>

lemma scenario_two_samples:
  "map toneData (emitted \<lparr>canvasWidth = 600, canvasHeight = 400, minBrushSize = Fin 2, maxBrushSize = Fin 20\<rparr> now
     \<lparr>isDrawing = False, currentBrushColor = ''#FF0000'', currentBrushSize = 5,
        drawnPoints = [\<lparr>x = 590, y = 0, color = ''#00FF00'', size = 20\<rparr>,
                       \<lparr>x = 10, y = 400, color = ''#FF0000'', size = 5\<rparr>],
        audioCtx = None, canvasOps = [], console = []\<rparr>)
   = [(0, Fin 60, Fin 0.25, Fin (11 / 12)), (30, Fin 95, Fin 0.5, Fin 1.5)]"
  by (simp add: emitted_def playTones_def notesInTimeSlots_def numTimeSteps_eq replicate_32
      pushPoint_def timeSlotIndex_Fin js_ge_def Let_def slotEvents_def toneData_def pointTone_def
      mapRange_Fin currentMidiNote_eval degree_def degreeSemitones_def getColorOctaveAndScale_def
      toUpperCase_def toUpperCase_char_def)

text \<open>On a canvas of width zero the division gives no finite index and every sample is discarded.\<close>

lemma zero_width_discards:
  "canvasWidth cfg = 0 \<Longrightarrow> \<not> inSlot cfg i p"
  by (simp add: inSlot_def timeSlotIndex_def mapRange_def js_sub_def inf_of_def js_ge_def)

end
